theory Spec2Isabelle
  imports Main
begin

section \<open>Data model\<close>

text \<open>
  The build script \<^verbatim>\<open>build.py\<close> works on Python \<^verbatim>\<open>str\<close> values and on
  \<^verbatim>\<open>dict\<close>s keyed by them. A \<^verbatim>\<open>str\<close> is modelled as a \<^typ>\<open>string\<close> whose
  characters are the code points 0 to 255: chapter names, build variants, URLs and git
  refs are ASCII, and the value of an HTTP header reaches Python decoded as ISO-8859-1.
  A \<^verbatim>\<open>dict\<close> keeps its keys in insertion order and has every key once, so it is an
  association list whose keys are distinct; \<^verbatim>\<open>d.get(k)\<close> is \<^const>\<open>map_of\<close>.
  An exception is a value of type \<open>error\<close>; a function that may raise returns a sum
  with the exception on the left.
\<close>

type_synonym 'v dict = "(string \<times> 'v) list"

datatype error =
    Exception string  \<comment> \<open>\<^verbatim>\<open>raise Exception(msg)\<close> of the script itself\<close>
  | URLError          \<comment> \<open>\<^verbatim>\<open>urlopen\<close> could not complete the request\<close>
  | AttributeError    \<comment> \<open>a method called on \<^verbatim>\<open>None\<close>\<close>
  | TypeError         \<comment> \<open>\<^verbatim>\<open>re.split\<close> on \<^verbatim>\<open>None\<close>\<close>
  | OSError           \<comment> \<open>\<^verbatim>\<open>open\<close> failed\<close>
  | JSONDecodeError   \<comment> \<open>\<^verbatim>\<open>json.load\<close> rejected the text\<close>
  | OutsideModel      \<comment> \<open>a JSON text that is not a flat object of strings over these
                          code points; the model takes no position on what Python does\<close>

text \<open>\<^verbatim>\<open>dict.keys()\<close> and \<^verbatim>\<open>dict.values()\<close> iterate in insertion order.\<close>

definition dict_keys :: "'v dict \<Rightarrow> string list" where
  "dict_keys d = map fst d"

definition dict_values :: "'v dict \<Rightarrow> 'v list" where
  "dict_values d = map snd d"

text \<open>
  \<^verbatim>\<open>d[k] = v\<close>: a key that is present keeps its place and gets the new value, a new
  key goes to the end.
\<close>

fun setitem :: "'v dict \<Rightarrow> string \<Rightarrow> 'v \<Rightarrow> 'v dict" where
  "setitem [] k v = [(k, v)]"
| "setitem ((k', v') # d) k v =
     (if k' = k then (k, v) # d else (k', v') # setitem d k v)"

section \<open>The catalog of build variants\<close>

definition chapter_to_build_variants :: "string list dict" where
  "chapter_to_build_variants = [
    (''onikakushi'', [
      ''onikakushi 5.2.2f1 win'',
      ''onikakushi 5.2.2f1 unix'']),
    (''watanagashi'', [
      ''watanagashi 5.2.2f1 win'',
      ''watanagashi 5.2.2f1 unix'']),
    (''tatarigoroshi'', [
      ''tatarigoroshi 5.4.0f1 win'',
      ''tatarigoroshi 5.4.0f1 unix'',
      ''tatarigoroshi 5.3.5f1 win'',
      ''tatarigoroshi 5.3.4p1 win'',
      ''tatarigoroshi 5.3.4p1 unix'']),
    (''himatsubushi'', [
      ''himatsubushi 5.4.1f1 win'',
      ''himatsubushi 5.4.1f1 unix'']),
    (''meakashi'', [
      ''meakashi 5.5.3p3 win'',
      ''meakashi 5.5.3p3 unix'',
      ''meakashi 5.5.3p1 win'',
      ''meakashi 5.5.3p1 unix'']),
    (''tsumihoroboshi'', [
      ''tsumihoroboshi 5.5.3p3 win'',
      ''tsumihoroboshi 5.5.3p3 unix'']),
    (''minagoroshi'', [
      ''minagoroshi 5.6.7f1 win'',
      ''minagoroshi 5.6.7f1 unix'']),
    (''matsuribayashi'', [
      ''matsuribayashi 2017.2.5 unix'',
      ''matsuribayashi 2017.2.5 unix 51100D6D'',
      ''matsuribayashi 2017.2.5 win'']),
    (''rei'', [
      ''rei 2019.4.3 win'',
      ''rei 2019.4.3 unix''])]"

text \<open>
  \<^verbatim>\<open>get_build_variants\<close>: for \<^verbatim>\<open>"all"\<close> the loop extends an empty list by each
  chapter's list in turn; for a key of the catalog the result is the catalog's list; any
  other string raises.
\<close>

definition get_build_variants :: "string \<Rightarrow> error + string list" where
  "get_build_variants selected_chapter =
     (if selected_chapter = ''all'' then
        Inr (fold (\<lambda>command commands. commands @ command)
               (dict_values chapter_to_build_variants) [])
      else (case map_of chapter_to_build_variants selected_chapter of
              Some variants \<Rightarrow> Inr variants
            | None \<Rightarrow>
                Inl (Exception (''Unknown Chapter '' @ selected_chapter
                       @ '' - please update the build.py script''))))"

section \<open>Strings\<close>

text \<open>
  The character tables of Python on the code points 0 to 255: \<^verbatim>\<open>str.isalnum\<close> (the
  alphanumeric characters of the regular expression engine), \<^verbatim>\<open>str.lower\<close>, which
  maps these code points one by one, and \<^verbatim>\<open>str.isspace\<close>, the characters that
  \<^verbatim>\<open>str.strip()\<close> removes at both ends.
\<close>

definition isalnum :: "char \<Rightarrow> bool" where
  "isalnum c =
     (let n = (of_char c :: nat) in
        (48 \<le> n \<and> n \<le> 57) \<or> (65 \<le> n \<and> n \<le> 90) \<or> (97 \<le> n \<and> n \<le> 122)
        \<or> n \<in> {170, 178, 179, 181, 185, 186, 188, 189, 190}
        \<or> (192 \<le> n \<and> n \<noteq> 215 \<and> n \<noteq> 247))"

definition lower_char :: "char \<Rightarrow> char" where
  "lower_char c =
     (let n = (of_char c :: nat) in
        if (65 \<le> n \<and> n \<le> 90) \<or> (192 \<le> n \<and> n \<le> 222 \<and> n \<noteq> 215)
        then char_of (n + 32) else c)"

definition lower :: "string \<Rightarrow> string" where
  "lower s = map lower_char s"

definition isspace :: "char \<Rightarrow> bool" where
  "isspace c = ((of_char c :: nat) \<in> {9, 10, 11, 12, 13, 28, 29, 30, 31, 32, 133, 160})"

definition strip :: "string \<Rightarrow> string" where
  "strip s = rev (dropWhile isspace (rev (dropWhile isspace s)))"

text \<open>
  \<^verbatim>\<open>re.split\<close> on a class of single characters, and \<^verbatim>\<open>str.split(sep)\<close> on a
  separator of one character: the string is cut at every separator, so that two
  separators in a row, or one at either end, give an empty fragment, and the result is
  never the empty list.
\<close>

fun split_at :: "(char \<Rightarrow> bool) \<Rightarrow> string \<Rightarrow> string list" where
  "split_at sep [] = [[]]"
| "split_at sep (c # cs) =
     (if sep c then [] # split_at sep cs
      else (case split_at sep cs of
              [] \<Rightarrow> [[c]]
            | fragment # fragments \<Rightarrow> (c # fragment) # fragments))"

section \<open>The chapter name in the git ref\<close>

text \<open>
  The module reads \<^verbatim>\<open>GITHUB_REF\<close> into \<^verbatim>\<open>GIT_REF\<close> once; \<^verbatim>\<open>GIT_TAG\<close> is its
  last component after a slash, and is \<^verbatim>\<open>None\<close> exactly when \<^verbatim>\<open>GIT_REF\<close> is. The
  function takes the environment's value as its argument. It tests \<^verbatim>\<open>GIT_TAG\<close> and
  splits \<^verbatim>\<open>GIT_REF\<close>, at every character of the class that holds the non-word
  characters and the underscore; a word character is an alphanumeric one or the
  underscore.
\<close>

definition is_word :: "char \<Rightarrow> bool" where
  "is_word c = (isalnum c \<or> c = CHR ''_'')"

definition tag_separator :: "char \<Rightarrow> bool" where
  "tag_separator c = (\<not> is_word c \<or> c = CHR ''_'')"

definition GIT_TAG :: "string option \<Rightarrow> string option" where
  "GIT_TAG GIT_REF =
     (case GIT_REF of
        None \<Rightarrow> None
      | Some ref \<Rightarrow> Some (last (split_at (\<lambda>c. c = CHR ''/'') ref)))"

fun first_chapter :: "string list \<Rightarrow> string list \<Rightarrow> string option" where
  "first_chapter [] tag_fragments = None"
| "first_chapter (chapter_name # chapter_names) tag_fragments =
     (if lower chapter_name \<in> set tag_fragments then Some chapter_name
      else first_chapter chapter_names tag_fragments)"

definition get_chapter_name_from_git_tag :: "string option \<Rightarrow> error + string option" where
  "get_chapter_name_from_git_tag GIT_REF =
     (if GIT_TAG GIT_REF = None then
        Inl (Exception '''github_actions' was selected, but environment variable GIT_REF was not set - are you sure you're running this script from Github Actions?'')
      else
        (case GIT_REF of
           None \<Rightarrow> Inl TypeError
         | Some ref \<Rightarrow>
             (let tag_fragments = map lower (split_at tag_separator ref) in
                if ''all'' \<in> set tag_fragments then Inr (Some ''all'')
                else Inr (first_chapter (dict_keys chapter_to_build_variants) tag_fragments))))"

text \<open>
  The specification's account of the same function, with the set of boundary characters
  left open: lowercase fragments; \<^verbatim>\<open>"all"\<close> if a fragment equals it without regard to
  case; otherwise the first chapter name, in the catalog's order, that equals a fragment
  without regard to case; otherwise nothing. \<open>spec_boundary\<close> is the boundary as the
  specification words it: a character that is neither alphanumeric nor an underscore.
\<close>

definition resolveFromTag_spec :: "(char \<Rightarrow> bool) \<Rightarrow> string \<Rightarrow> string option" where
  "resolveFromTag_spec boundary tagString =
     (let fragments = map lower (split_at boundary tagString) in
        if \<exists>f \<in> set fragments. lower f = lower ''all'' then Some ''all''
        else find (\<lambda>c. \<exists>f \<in> set fragments. lower c = lower f)
               (dict_keys chapter_to_build_variants))"

definition spec_boundary :: "char \<Rightarrow> bool" where
  "spec_boundary c = (\<not> isalnum c \<and> c \<noteq> CHR ''_'')"

section \<open>The JSON text of the cache file\<close>

text \<open>
  \<^verbatim>\<open>json.dump\<close> with its default arguments, on a \<^verbatim>\<open>dict\<close> from \<^verbatim>\<open>str\<close> to
  \<^verbatim>\<open>str\<close>. A string is written between double quotes; a printable ASCII character
  other than the double quote and the backslash stands for itself, the table
  \<^verbatim>\<open>ESCAPE_DCT\<close> gives the two-character escapes, and every other character is written
  as a backslash, \<^verbatim>\<open>u\<close> and four lowercase hexadecimal digits. The items are
  separated by a comma and a space, key and value by a colon and a space.
\<close>

abbreviation quote :: char where
  "quote \<equiv> CHR 0x22"

abbreviation backslash :: char where
  "backslash \<equiv> CHR 0x5C"

definition hexdigits :: string where
  "hexdigits = ''0123456789abcdef''"

definition format_04x :: "nat \<Rightarrow> string" where
  "format_04x n =
     map (\<lambda>d. hexdigits ! d) [n div 4096 mod 16, n div 256 mod 16, n div 16 mod 16, n mod 16]"

definition ESCAPE_DCT :: "char \<rightharpoonup> string" where
  "ESCAPE_DCT =
     [backslash \<mapsto> [backslash, backslash],
      quote \<mapsto> [backslash, quote],
      CHR 0x08 \<mapsto> [backslash, CHR ''b''],
      CHR 0x0C \<mapsto> [backslash, CHR ''f''],
      CHR 0x0A \<mapsto> [backslash, CHR ''n''],
      CHR 0x0D \<mapsto> [backslash, CHR ''r''],
      CHR 0x09 \<mapsto> [backslash, CHR ''t'']]"

definition escape_ascii :: "char \<Rightarrow> string" where
  "escape_ascii c =
     (if c \<noteq> backslash \<and> c \<noteq> quote \<and> 32 \<le> (of_char c :: nat) \<and> (of_char c :: nat) \<le> 126
      then [c]
      else (case ESCAPE_DCT c of
              Some e \<Rightarrow> e
            | None \<Rightarrow> [backslash, CHR ''u''] @ format_04x (of_char c)))"

definition py_encode_basestring_ascii :: "string \<Rightarrow> string" where
  "py_encode_basestring_ascii s = quote # concat (map escape_ascii s) @ [quote]"

fun iterencode_rest :: "string dict \<Rightarrow> string" where
  "iterencode_rest [] = ''}''"
| "iterencode_rest ((k, v) # items) =
     '', '' @ py_encode_basestring_ascii k @ '': '' @ py_encode_basestring_ascii v
       @ iterencode_rest items"

definition json_dump :: "string dict \<Rightarrow> string" where
  "json_dump dct =
     (case dct of
        [] \<Rightarrow> ''{}''
      | (k, v) # items \<Rightarrow>
          ''{'' @ py_encode_basestring_ascii k @ '': '' @ py_encode_basestring_ascii v
            @ iterencode_rest items)"

text \<open>
  \<^verbatim>\<open>json.load\<close>, on the texts that hold one object from strings to strings. The
  scanner skips blanks, tabs, line feeds and carriage returns between the tokens. Within
  a string it accepts the escapes of the table \<^verbatim>\<open>BACKSLASH\<close> and four hexadecimal
  digits after \<^verbatim>\<open>u\<close>, and it rejects a control character that is not escaped. A
  value that does not start with a double quote, a character beyond code point 255 and a
  text that does not start with an opening brace leave the model (\<open>OutsideModel\<close>).
  Every function returns the text that follows what it has read.
\<close>

definition WHITESPACE :: "string \<Rightarrow> string" where
  "WHITESPACE s = dropWhile (\<lambda>c. c \<in> {CHR '' '', CHR 0x09, CHR 0x0A, CHR 0x0D}) s"

definition hexval :: "char \<Rightarrow> nat option" where
  "hexval c =
     (let n = (of_char c :: nat) in
        if 48 \<le> n \<and> n \<le> 57 then Some (n - 48)
        else if 97 \<le> n \<and> n \<le> 102 then Some (n - 87)
        else if 65 \<le> n \<and> n \<le> 70 then Some (n - 55)
        else None)"

definition decode_uXXXX :: "char \<Rightarrow> char \<Rightarrow> char \<Rightarrow> char \<Rightarrow> nat option" where
  "decode_uXXXX a b c d =
     (case (hexval a, hexval b, hexval c, hexval d) of
        (Some x, Some y, Some z, Some w) \<Rightarrow> Some (((x * 16 + y) * 16 + z) * 16 + w)
      | _ \<Rightarrow> None)"

definition BACKSLASH :: "char \<rightharpoonup> char" where
  "BACKSLASH =
     [quote \<mapsto> quote, backslash \<mapsto> backslash, CHR ''/'' \<mapsto> CHR ''/'',
      CHR ''b'' \<mapsto> CHR 0x08, CHR ''f'' \<mapsto> CHR 0x0C, CHR ''n'' \<mapsto> CHR 0x0A,
      CHR ''r'' \<mapsto> CHR 0x0D, CHR ''t'' \<mapsto> CHR 0x09]"

definition prepend :: "char \<Rightarrow> error + string \<times> string \<Rightarrow> error + string \<times> string" where
  "prepend c r = (case r of Inl e \<Rightarrow> Inl e | Inr (chunks, rest) \<Rightarrow> Inr (c # chunks, rest))"

text \<open>\<open>scanstring\<close> starts after the opening double quote.\<close>

fun scanstring :: "string \<Rightarrow> error + string \<times> string" where
  "scanstring [] = Inl JSONDecodeError"
| "scanstring (c # s) =
     (if c = quote then Inr ([], s)
      else if c = backslash then
        (case s of
           [] \<Rightarrow> Inl JSONDecodeError
         | esc # s1 \<Rightarrow>
             if esc = CHR ''u'' then
               (case s1 of
                  x1 # x2 # x3 # x4 # s2 \<Rightarrow>
                    (case decode_uXXXX x1 x2 x3 x4 of
                       None \<Rightarrow> Inl JSONDecodeError
                     | Some uni \<Rightarrow>
                         if uni < 256 then prepend (char_of uni) (scanstring s2)
                         else Inl OutsideModel)
                | _ \<Rightarrow> Inl JSONDecodeError)
             else
               (case BACKSLASH esc of
                  None \<Rightarrow> Inl JSONDecodeError
                | Some ch \<Rightarrow> prepend ch (scanstring s1)))
      else if (of_char c :: nat) < 32 then Inl JSONDecodeError
      else prepend c (scanstring s))"

lemma prepend_Inr: "prepend c r = Inr (x, t) \<longleftrightarrow> (\<exists>x'. r = Inr (x', t) \<and> x = c # x')"
  by (auto simp: prepend_def split: sum.splits)

lemma scanstring_length: "scanstring s = Inr (x, r) \<Longrightarrow> length r < length s"
proof (induction "length s" arbitrary: s x r rule: less_induct)
  case less
  have IH: "\<And>t y. scanstring t = Inr (y, r) \<Longrightarrow> length t < length s \<Longrightarrow> length r < length t"
    using less.hyps by blast
  from less.prems show ?case
    by (cases s) (auto simp: prepend_Inr split: if_splits list.splits option.splits dest!: IH)
qed

lemma WHITESPACE_length: "length (WHITESPACE s) \<le> length s"
  by (simp add: WHITESPACE_def length_dropWhile_le)

text \<open>
  The loop of the object scanner, entered after the opening double quote of a key: key,
  colon, value, and then either the closing brace or a comma and the next key.
\<close>

function JSONObject_pairs :: "string \<Rightarrow> error + string dict \<times> string" where
  "JSONObject_pairs s =
     (case scanstring s of
        Inl e \<Rightarrow> Inl e
      | Inr (key, s1) \<Rightarrow>
          (case WHITESPACE s1 of
             [] \<Rightarrow> Inl JSONDecodeError
           | c1 # s2 \<Rightarrow>
               if c1 \<noteq> CHR '':'' then Inl JSONDecodeError
               else
                 (case WHITESPACE s2 of
                    [] \<Rightarrow> Inl JSONDecodeError
                  | c2 # s3 \<Rightarrow>
                      if c2 \<noteq> quote then Inl OutsideModel
                      else
                        (case scanstring s3 of
                           Inl e \<Rightarrow> Inl e
                         | Inr (val, s4) \<Rightarrow>
                             (case WHITESPACE s4 of
                                [] \<Rightarrow> Inl JSONDecodeError
                              | c3 # s5 \<Rightarrow>
                                  if c3 = CHR ''}'' then Inr ([(key, val)], s5)
                                  else if c3 \<noteq> CHR '','' then Inl JSONDecodeError
                                  else
                                    (case WHITESPACE s5 of
                                       [] \<Rightarrow> Inl JSONDecodeError
                                     | c4 # s6 \<Rightarrow>
                                         if c4 \<noteq> quote then Inl JSONDecodeError
                                         else
                                           (case JSONObject_pairs s6 of
                                              Inl e \<Rightarrow> Inl e
                                            | Inr (pairs, s7) \<Rightarrow>
                                                Inr ((key, val) # pairs, s7))))))))"
  by pat_completeness auto
termination
proof (relation "measure length", goal_cases)
  case 1
  show ?case by simp
next
  case (2 s x2 key s1 c1 s2 c2 s3 x2a val s4 c3 s5 c4 s6)
  from 2 have a: "length s1 < length s" and b: "length s4 < length s3"
    by (auto dest: scanstring_length)
  from 2 have "length (c1 # s2) \<le> length s1" "length (c2 # s3) \<le> length s2"
    "length (c3 # s5) \<le> length s4" "length (c4 # s6) \<le> length s5"
    by (metis WHITESPACE_length)+
  with a b show ?case by simp
qed

declare JSONObject_pairs.simps [simp del]

text \<open>The pairs become a \<^verbatim>\<open>dict\<close> in the order read; a key read twice keeps its last value.\<close>

definition dict_of_pairs :: "(string \<times> 'v) list \<Rightarrow> 'v dict" where
  "dict_of_pairs pairs = fold (\<lambda>(k, v) d. setitem d k v) pairs []"

text \<open>\<open>JSONObject\<close> starts after the opening brace.\<close>

definition JSONObject :: "string \<Rightarrow> error + string dict \<times> string" where
  "JSONObject s =
     (case WHITESPACE s of
        [] \<Rightarrow> Inl JSONDecodeError
      | nextchar # s1 \<Rightarrow>
          if nextchar = CHR ''}'' then Inr ([], s1)
          else if nextchar \<noteq> quote then Inl JSONDecodeError
          else
            (case JSONObject_pairs s1 of
               Inl e \<Rightarrow> Inl e
             | Inr (pairs, s2) \<Rightarrow> Inr (dict_of_pairs pairs, s2)))"

definition json_load :: "string \<Rightarrow> error + string dict" where
  "json_load s =
     (case WHITESPACE s of
        [] \<Rightarrow> Inl JSONDecodeError
      | nextchar # s1 \<Rightarrow>
          if nextchar \<noteq> CHR ''{'' then Inl OutsideModel
          else
            (case JSONObject s1 of
               Inl e \<Rightarrow> Inl e
             | Inr (obj, s2) \<Rightarrow>
                 if WHITESPACE s2 = [] then Inr obj else Inl JSONDecodeError))"

section \<open>The cache of last-modified dates\<close>

text \<open>
  What the cache reads and writes outside its own memory is the state of the world: the
  files by their path, what a request to a URL meets, and the lines printed so far. A
  path holds no file, a regular file with its text, or something that
  \<^verbatim>\<open>os.path.exists\<close> reports and \<^verbatim>\<open>open\<close> refuses (a directory, a file without
  permission). A request fails, or it is answered, with the \<^verbatim>\<open>Last-Modified\<close> header
  as \<^verbatim>\<open>getheader\<close> returns it. Creating the file and printing are taken to succeed.
\<close>

datatype http_result = RequestFailed | Response "string option"

datatype fs_entry = Absent | Regular string | Unopenable

record world =
  files :: "string \<Rightarrow> fs_entry"
  remote :: "string \<Rightarrow> http_result"
  stdout :: "string list"

definition print :: "string \<Rightarrow> world \<Rightarrow> world" where
  "print line w = w\<lparr>stdout := stdout w @ [line]\<rparr>"

text \<open>A value formatted into an f-string: \<^verbatim>\<open>None\<close> prints as its name.\<close>

definition str_optional :: "string option \<Rightarrow> string" where
  "str_optional v = (case v of None \<Rightarrow> ''None'' | Some s \<Rightarrow> s)"

record LastModifiedManager =
  lastModifiedDict :: "string dict"

definition savePath :: string where
  "savePath = ''lastModified.json''"

definition LastModifiedManager_init :: "world \<Rightarrow> error + LastModifiedManager" where
  "LastModifiedManager_init w =
     (case files w savePath of
        Absent \<Rightarrow> Inr \<lparr>lastModifiedDict = []\<rparr>
      | Unopenable \<Rightarrow> Inl OSError
      | Regular handle \<Rightarrow>
          (case json_load handle of
             Inl e \<Rightarrow> Inl e
           | Inr d \<Rightarrow> Inr \<lparr>lastModifiedDict = d\<rparr>))"

definition getRemoteLastModified :: "world \<Rightarrow> string \<Rightarrow> error + string" where
  "getRemoteLastModified w url =
     (case remote w url of
        RequestFailed \<Rightarrow> Inl URLError
      | Response None \<Rightarrow> Inl AttributeError
      | Response (Some header) \<Rightarrow> Inr (strip header))"

text \<open>
  An exception leaves the object as it is at that moment, so the method returns the
  manager and the world next to its outcome, also when it raises.
\<close>

definition isRemoteModifiedAndUpdateMemory ::
    "LastModifiedManager \<Rightarrow> string \<Rightarrow> world
      \<Rightarrow> (error + bool) \<times> LastModifiedManager \<times> world" where
  "isRemoteModifiedAndUpdateMemory self url w =
     (case getRemoteLastModified w url of
        Inl e \<Rightarrow> (Inl e, self, w)
      | Inr remoteLastModified \<Rightarrow>
          (let localLastModified = map_of (lastModifiedDict self) url in
             if localLastModified \<noteq> None \<and> localLastModified = Some remoteLastModified then
               (Inr False, self,
                print (''LastModifiedManager: local and remote dates the same ''
                         @ str_optional localLastModified) w)
             else
               (Inr True,
                self\<lparr>lastModifiedDict :=
                       setitem (lastModifiedDict self) url remoteLastModified\<rparr>,
                print (''LastModifiedManager: local '' @ str_optional localLastModified
                         @ '' and remote '' @ remoteLastModified @ '' are different'') w)))"

definition save :: "LastModifiedManager \<Rightarrow> world \<Rightarrow> (error + unit) \<times> world" where
  "save self w =
     (case files w savePath of
        Unopenable \<Rightarrow> (Inl OSError, w)
      | _ \<Rightarrow>
          (Inr (),
           w\<lparr>files := (files w)(savePath := Regular (json_dump (lastModifiedDict self)))\<rparr>))"

text \<open>
  A world and two managers to run the definitions on: the two URLs that the script
  checks, the first answered with a date between blanks, the second answered without the
  header, every other request failing, and no file anywhere.
\<close>

definition assets_url :: string where
  "assets_url = ''http://07th-mod.com/archive/vanilla.7z''"

definition uabe_url :: string where
  "uabe_url =
     ''http://07th-mod.com/archive/AssetsBundleExtractor_2.2stabled_64bit_with_VC2010.zip''"

definition example_world :: world where
  "example_world =
     \<lparr>files = (\<lambda>path. Absent),
      remote = (\<lambda>url. if url = assets_url
                      then Response (Some '' Tue, 01 Jan 2019 00:00:00 GMT  '')
                      else if url = uabe_url then Response None
                      else RequestFailed),
      stdout = []\<rparr>"

definition fresh_manager :: LastModifiedManager where
  "fresh_manager = \<lparr>lastModifiedDict = []\<rparr>"

definition stale_manager :: LastModifiedManager where
  "stale_manager =
     \<lparr>lastModifiedDict =
        [(assets_url, ''Mon, 01 Jan 2018 00:00:00 GMT''),
         (uabe_url, ''Sun, 01 Jan 2017 00:00:00 GMT'')]\<rparr>"

section \<open>Resolving a selection token\<close>

lemma fold_extend: "fold (\<lambda>command commands. commands @ command) xss acc = acc @ concat xss"
  by (induction xss arbitrary: acc) simp_all

lemma length_concat_sum: "length (concat xss) = sum_list (map length xss)"
  by (induction xss) simp_all

lemma catalog_keys:
  "dict_keys chapter_to_build_variants =
     [''onikakushi'', ''watanagashi'', ''tatarigoroshi'', ''himatsubushi'', ''meakashi'',
      ''tsumihoroboshi'', ''minagoroshi'', ''matsuribayashi'', ''rei'']"
  by (simp add: dict_keys_def chapter_to_build_variants_def)

lemma catalog_distinct: "distinct (dict_keys chapter_to_build_variants)"
  unfolding catalog_keys by simp

lemma all_not_chapter: "''all'' \<notin> set (dict_keys chapter_to_build_variants)"
  unfolding catalog_keys by simp

lemma catalog_nonempty: "[] \<notin> set (dict_values chapter_to_build_variants)"
  by (simp add: dict_values_def chapter_to_build_variants_def)

text \<open>
  C6. \<open>get_build_variants\<close> on the token \<^verbatim>\<open>"all"\<close> returns the concatenation of the
  variant lists of all chapters, in the order of the catalog, and the length of what it
  returns is the sum of the lengths of the chapters' lists.
\<close>

theorem resolve_all:
  "get_build_variants ''all'' = Inr (concat (dict_values chapter_to_build_variants))
   \<and> (\<exists>vs. get_build_variants ''all'' = Inr vs
          \<and> length vs = sum_list (map length (dict_values chapter_to_build_variants)))"
  by (simp add: get_build_variants_def fold_extend length_concat_sum)

text \<open>
  C7. For every chapter name \<open>c\<close> that the catalog declares with the variant list \<open>vs\<close>,
  \<open>get_build_variants c\<close> returns \<open>vs\<close> itself, the same elements in the same order, and
  \<open>vs\<close> is not empty.
\<close>

theorem resolve_chapter:
  assumes "(c, vs) \<in> set chapter_to_build_variants"
  shows "get_build_variants c = Inr vs \<and> vs \<noteq> []"
proof -
  from assms have key: "c \<in> set (dict_keys chapter_to_build_variants)"
    by (force simp: dict_keys_def)
  with all_not_chapter have "c \<noteq> ''all''"
    by blast
  moreover from catalog_distinct assms have "map_of chapter_to_build_variants c = Some vs"
    by (simp add: dict_keys_def)
  moreover from assms have "vs \<in> set (dict_values chapter_to_build_variants)"
    by (force simp: dict_values_def)
  with catalog_nonempty have "vs \<noteq> []"
    by blast
  ultimately show ?thesis
    by (simp add: get_build_variants_def)
qed

theorem resolve_chapter_witness:
  "(''rei'', [''rei 2019.4.3 win'', ''rei 2019.4.3 unix'']) \<in> set chapter_to_build_variants
   \<and> get_build_variants ''rei'' = Inr [''rei 2019.4.3 win'', ''rei 2019.4.3 unix'']"
proof -
  have h: "(''rei'', [''rei 2019.4.3 win'', ''rei 2019.4.3 unix''])
             \<in> set chapter_to_build_variants"
    by (simp add: chapter_to_build_variants_def)
  from resolve_chapter [OF h] h show ?thesis
    by simp
qed

text \<open>
  C8. For every string \<open>x\<close> that is neither \<^verbatim>\<open>"all"\<close> nor a chapter name of the catalog,
  \<open>get_build_variants x\<close> raises the exception that names the unknown chapter, and it
  returns no list of variants.
\<close>

theorem resolve_unknown:
  assumes "x \<noteq> ''all''" and "x \<notin> set (dict_keys chapter_to_build_variants)"
  shows "get_build_variants x =
           Inl (Exception (''Unknown Chapter '' @ x @ '' - please update the build.py script''))
         \<and> (\<forall>vs. get_build_variants x \<noteq> Inr vs)"
proof -
  from assms(2) have "map_of chapter_to_build_variants x = None"
    by (simp add: dict_keys_def map_of_eq_None_iff)
  with assms(1) show ?thesis
    by (simp add: get_build_variants_def)
qed

theorem resolve_unknown_witness:
  "get_build_variants ''higurashi'' =
     Inl (Exception ''Unknown Chapter higurashi - please update the build.py script'')"
proof -
  have h1: "''higurashi'' \<noteq> ''all''"
    by simp
  have h2: "''higurashi'' \<notin> set (dict_keys chapter_to_build_variants)"
    unfolding catalog_keys by simp
  from resolve_unknown [OF h1 h2] show ?thesis
    by simp
qed

section \<open>Resolving the chapter from the git ref\<close>

lemma lower_char_idem: "lower_char (lower_char c) = lower_char c"
proof -
  define n where "n = (of_char c :: nat)"
  show ?thesis
  proof (cases "(65 \<le> n \<and> n \<le> 90) \<or> (192 \<le> n \<and> n \<le> 222 \<and> n \<noteq> 215)")
    case True
    then have lc: "lower_char c = char_of (n + 32)"
      unfolding lower_char_def Let_def n_def by simp
    from True have "n + 32 < 256"
      by arith
    then have m: "(of_char (char_of (n + 32)) :: nat) = n + 32"
      by (simp only: of_char_of mod_less)
    from True have "\<not> ((65 \<le> n + 32 \<and> n + 32 \<le> 90)
                       \<or> (192 \<le> n + 32 \<and> n + 32 \<le> 222 \<and> n + 32 \<noteq> 215))"
      by arith
    then have "lower_char (char_of (n + 32)) = char_of (n + 32)"
      unfolding lower_char_def Let_def m by (rule if_not_P)
    with lc show ?thesis
      by simp
  next
    case False
    then have "lower_char c = c"
      by (auto simp: lower_char_def Let_def n_def)
    then show ?thesis
      by simp
  qed
qed

lemma lower_idem: "lower (lower s) = lower s"
  by (simp add: lower_def lower_char_idem)

lemma lower_all: "lower ''all'' = ''all''"
  by (simp add: lower_def lower_char_def)

lemma tag_separator_iff: "tag_separator c \<longleftrightarrow> \<not> isalnum c"
  by (auto simp: tag_separator_def is_word_def isalnum_def)

lemma first_chapter_find: "first_chapter cs F = find (\<lambda>c. lower c \<in> set F) cs"
  by (induction cs) simp_all

lemma resolveFromTag_spec_lowered:
  "resolveFromTag_spec boundary ref =
     (if ''all'' \<in> set (map lower (split_at boundary ref)) then Some ''all''
      else find (\<lambda>c. lower c \<in> set (map lower (split_at boundary ref)))
             (dict_keys chapter_to_build_variants))"
proof -
  define F where "F = map lower (split_at boundary ref)"
  have fixed: "lower f = f" if "f \<in> set F" for f
    using that by (auto simp: F_def lower_idem)
  have all: "(\<exists>f \<in> set F. lower f = lower ''all'') \<longleftrightarrow> ''all'' \<in> set F"
    using fixed by (metis lower_all)
  have chap: "(\<lambda>c. \<exists>f \<in> set F. lower c = lower f) = (\<lambda>c. lower c \<in> set F)"
    using fixed by metis
  show ?thesis
    unfolding resolveFromTag_spec_def Let_def F_def [symmetric] all chap ..
qed

text \<open>
  C2, as the code has it. With the git ref set, \<open>get_chapter_name_from_git_tag\<close> raises
  nothing and returns what the specified resolution returns when the ref is split at
  every character that is not alphanumeric, the underscore among them: \<^verbatim>\<open>"all"\<close> if a
  lowercased fragment equals it, otherwise the first chapter name of the catalog that
  equals a fragment without regard to case, otherwise \<^verbatim>\<open>None\<close>.
\<close>

theorem resolve_from_tag:
  "get_chapter_name_from_git_tag (Some ref)
     = Inr (resolveFromTag_spec (\<lambda>c. \<not> isalnum c) ref)"
proof -
  have sep: "tag_separator = (\<lambda>c. \<not> isalnum c)"
    by (rule ext) (rule tag_separator_iff)
  show ?thesis
    unfolding resolveFromTag_spec_lowered
    by (simp add: get_chapter_name_from_git_tag_def GIT_TAG_def Let_def first_chapter_find sep)
qed

theorem resolve_from_tag_witness:
  "get_chapter_name_from_git_tag (Some ''refs/tags/v1.2.3-onikakushi'')
     = Inr (Some ''onikakushi'')"
  using resolve_from_tag [of "''refs/tags/v1.2.3-onikakushi''"]
  by (simp add: resolveFromTag_spec_def isalnum_def lower_def lower_char_def catalog_keys)

text \<open>
  With the boundary that the specification words, a character that is neither
  alphanumeric nor an underscore, the ref \<^verbatim>\<open>v1_all\<close> is one fragment and resolves to
  nothing; the code splits it at the underscore and returns \<^verbatim>\<open>"all"\<close>.
\<close>

theorem resolve_from_tag_counterexample:
  "get_chapter_name_from_git_tag (Some ''v1_all'') = Inr (Some ''all'')
   \<and> resolveFromTag_spec spec_boundary ''v1_all'' = None"
  by (simp add: get_chapter_name_from_git_tag_def GIT_TAG_def resolveFromTag_spec_def
      spec_boundary_def tag_separator_def is_word_def isalnum_def lower_def lower_char_def
      catalog_keys)

text \<open>The three refs that the specification gives as examples, and the ref that is not set.\<close>

lemma resolve_from_tag_examples:
  "get_chapter_name_from_git_tag (Some ''v1.2.3-onikakushi'') = Inr (Some ''onikakushi'')"
  "get_chapter_name_from_git_tag (Some ''release-all-chapters'') = Inr (Some ''all'')"
  "get_chapter_name_from_git_tag (Some ''nonsense-tag'') = Inr None"
  "\<exists>message. get_chapter_name_from_git_tag None = Inl (Exception message)"
  by (simp_all add: get_chapter_name_from_git_tag_def GIT_TAG_def tag_separator_def
      is_word_def isalnum_def lower_def lower_char_def catalog_keys)

section \<open>Writing and reading the cache file\<close>

lemma of_char_lt_256: "(of_char c :: nat) < 256"
  by (cases c) (simp add: of_char_of)

lemma hexval_hexdigits: "k < 16 \<Longrightarrow> hexval (hexdigits ! k) = Some k"
proof -
  assume "k < 16"
  then have "k \<in> {0, 1, 2, 3, 4, 5, 6, 7, 8, 9, 10, 11, 12, 13, 14, 15}"
    by simp arith
  then show ?thesis
    by (auto simp: hexval_def hexdigits_def)
qed

lemma decode_format_04x:
  assumes "n < 256" and f: "format_04x n = [a, b, c, d]"
  shows "decode_uXXXX a b c d = Some n"
proof -
  from assms have z: "n div 4096 mod 16 = 0" "n div 256 mod 16 = 0"
    by simp_all
  have lt: "n div 16 mod 16 < 16" "n mod 16 < 16"
    by simp_all
  from f z have "hexval a = Some 0" "hexval b = Some 0"
    "hexval c = Some (n div 16 mod 16)" "hexval d = Some (n mod 16)"
    using hexval_hexdigits [of 0] hexval_hexdigits [OF lt(1)] hexval_hexdigits [OF lt(2)]
    by (auto simp: format_04x_def)
  moreover from assms have "n div 16 < 16"
    by simp
  then have "n div 16 mod 16 * 16 + n mod 16 = n"
    by simp
  ultimately show ?thesis
    by (simp add: decode_uXXXX_def)
qed

text \<open>The scanner reads back what the encoder wrote for one character.\<close>

lemma scanstring_escape_ascii: "scanstring (escape_ascii c @ t) = prepend c (scanstring t)"
proof (cases "c \<noteq> backslash \<and> c \<noteq> quote \<and> 32 \<le> (of_char c :: nat) \<and> (of_char c :: nat) \<le> 126")
  case True
  then show ?thesis
    by (simp add: escape_ascii_def)
next
  case plain: False
  show ?thesis
  proof (cases "ESCAPE_DCT c")
    case (Some e)
    then have "c \<in> {backslash, quote, CHR 0x08, CHR 0x0C, CHR 0x0A, CHR 0x0D, CHR 0x09}"
      by (auto simp: ESCAPE_DCT_def split: if_splits)
    then show ?thesis
      by (auto simp: escape_ascii_def ESCAPE_DCT_def BACKSLASH_def)
  next
    case None
    then have nq: "c \<noteq> quote" and nb: "c \<noteq> backslash"
      by (auto simp: ESCAPE_DCT_def split: if_splits)
    obtain x1 x2 x3 x4 where f: "format_04x (of_char c) = [x1, x2, x3, x4]"
      by (simp add: format_04x_def)
    from decode_format_04x [OF of_char_lt_256 f]
    have "decode_uXXXX x1 x2 x3 x4 = Some (of_char c)" .
    with None plain f of_char_lt_256 [of c] show ?thesis
      by (simp add: escape_ascii_def)
  qed
qed

lemma scanstring_encoded: "scanstring (concat (map escape_ascii s) @ quote # t) = Inr (s, t)"
  by (induction s) (simp_all add: scanstring_escape_ascii prepend_def)

lemma WHITESPACE_nonspace:
  "c \<notin> {CHR '' '', CHR 0x09, CHR 0x0A, CHR 0x0D} \<Longrightarrow> WHITESPACE (c # s) = c # s"
  by (simp add: WHITESPACE_def)

lemma WHITESPACE_space: "WHITESPACE (CHR '' '' # s) = WHITESPACE s"
  by (simp add: WHITESPACE_def)

lemma JSONObject_pairs_encoded:
  "JSONObject_pairs (concat (map escape_ascii k) @ quote # '': '' @ py_encode_basestring_ascii v
       @ iterencode_rest items @ t) = Inr ((k, v) # items, t)"
proof (induction items arbitrary: k v)
  case Nil
  show ?case
    by (subst JSONObject_pairs.simps)
      (simp add: scanstring_encoded py_encode_basestring_ascii_def
        WHITESPACE_nonspace WHITESPACE_space)
next
  case (Cons item items)
  obtain k' v' where item: "item = (k', v')"
    by (cases item)
  have "JSONObject_pairs (concat (map escape_ascii k') @ quote # '': ''
           @ py_encode_basestring_ascii v' @ iterencode_rest items @ t)
          = Inr ((k', v') # items, t)"
    by (rule Cons.IH)
  then show ?case
    by (subst JSONObject_pairs.simps)
      (simp add: item scanstring_encoded py_encode_basestring_ascii_def
        WHITESPACE_nonspace WHITESPACE_space)
qed

lemma setitem_fresh: "k \<notin> fst ` set d \<Longrightarrow> setitem d k v = d @ [(k, v)]"
  by (induction d) auto

lemma fold_setitem_distinct:
  "distinct (map fst pairs) \<Longrightarrow> fst ` set pairs \<inter> fst ` set d = {} \<Longrightarrow>
   fold (\<lambda>(k, v) d. setitem d k v) pairs d = d @ pairs"
proof (induction pairs arbitrary: d)
  case Nil
  show ?case
    by simp
next
  case (Cons p pairs)
  obtain k v where p: "p = (k, v)"
    by (cases p)
  from Cons.prems p have fresh: "k \<notin> fst ` set d"
    by auto
  from Cons.prems p have "fst ` set pairs \<inter> fst ` set (d @ [(k, v)]) = {}"
    by auto
  with Cons.IH [of "d @ [(k, v)]"] Cons.prems show ?case
    by (simp add: p setitem_fresh [OF fresh])
qed

lemma dict_of_pairs_distinct: "distinct (dict_keys d) \<Longrightarrow> dict_of_pairs d = d"
  using fold_setitem_distinct [of d "[]"] by (simp add: dict_of_pairs_def dict_keys_def)

lemma json_load_json_dump:
  assumes "distinct (dict_keys dct)"
  shows "json_load (json_dump dct) = Inr dct"
proof (cases dct)
  case Nil
  then show ?thesis
    by (simp add: json_load_def json_dump_def JSONObject_def WHITESPACE_def)
next
  case (Cons item items)
  obtain k v where item: "item = (k, v)"
    by (cases item)
  have "JSONObject (py_encode_basestring_ascii k @ '': '' @ py_encode_basestring_ascii v
          @ iterencode_rest items @ []) = Inr (dict_of_pairs dct, [])"
    using JSONObject_pairs_encoded [of k v items "[]"]
    by (simp add: JSONObject_def py_encode_basestring_ascii_def [of k] WHITESPACE_nonspace
        Cons item)
  with assms show ?thesis
    by (simp add: json_load_def json_dump_def Cons item WHITESPACE_nonspace
        dict_of_pairs_distinct WHITESPACE_def [of "[]"])
qed

text \<open>
  The text written for a dict of two items, one of them with a line feed, a double quote,
  a backslash, a control character and a character beyond ASCII in its key.
\<close>

lemma json_dump_example:
  "json_dump [([CHR ''a'', quote, backslash, CHR 0x0A, CHR 0x01, CHR 0x7F, CHR 0xE9, CHR ''/''],
               ''b''), (''c'', ''d'')]
     = ''{'' @ [quote] @ ''a'' @ [backslash, quote, backslash, backslash, backslash]
         @ ''n'' @ [backslash] @ ''u0001'' @ [backslash] @ ''u007f'' @ [backslash]
         @ ''u00e9/'' @ [quote] @ '': '' @ [quote] @ ''b'' @ [quote] @ '', '' @ [quote]
         @ ''c'' @ [quote] @ '': '' @ [quote] @ ''d'' @ [quote] @ ''}''"
  by (simp add: json_dump_def py_encode_basestring_ascii_def escape_ascii_def ESCAPE_DCT_def
      format_04x_def hexdigits_def)

section \<open>The dict of the manager keeps its keys distinct\<close>

lemma map_of_setitem: "map_of (setitem d k v) = (map_of d)(k \<mapsto> v)"
  by (induction d) (auto simp: fun_eq_iff)

lemma keys_setitem: "fst ` set (setitem d k v) = insert k (fst ` set d)"
proof (induction d)
  case Nil
  show ?case
    by simp
next
  case (Cons p d)
  obtain k' v' where p: "p = (k', v')"
    by (cases p)
  from Cons.IH show ?case
    unfolding p by (cases "k' = k") auto
qed

lemma distinct_setitem:
  "distinct (dict_keys d) \<Longrightarrow> distinct (dict_keys (setitem d k v))"
  unfolding dict_keys_def by (induction d) (auto simp: keys_setitem)

lemma fold_setitem_keys_distinct:
  "distinct (dict_keys d) \<Longrightarrow> distinct (dict_keys (fold (\<lambda>(k, v) d. setitem d k v) pairs d))"
proof (induction pairs arbitrary: d)
  case Nil
  then show ?case
    by simp
next
  case (Cons p pairs)
  obtain k v where p: "p = (k, v)"
    by (cases p)
  from Cons.prems have "distinct (dict_keys (setitem d k v))"
    by (rule distinct_setitem)
  from Cons.IH [OF this] show ?case
    by (simp add: p)
qed

lemma dict_of_pairs_keys_distinct: "distinct (dict_keys (dict_of_pairs pairs))"
  unfolding dict_of_pairs_def by (rule fold_setitem_keys_distinct) (simp add: dict_keys_def)

lemma json_load_keys_distinct: "json_load s = Inr d \<Longrightarrow> distinct (dict_keys d)"
  by (auto simp: json_load_def JSONObject_def dict_keys_def [of "[]"]
      dict_of_pairs_keys_distinct
      split: list.splits if_splits sum.splits prod.splits)

lemma init_keys_distinct:
  "LastModifiedManager_init w = Inr self \<Longrightarrow> distinct (dict_keys (lastModifiedDict self))"
  by (auto simp: LastModifiedManager_init_def dict_keys_def [of "[]"]
      split: fs_entry.splits sum.splits dest: json_load_keys_distinct)

lemma check_keys_distinct:
  "isRemoteModifiedAndUpdateMemory self url w = (res, self', w') \<Longrightarrow>
   distinct (dict_keys (lastModifiedDict self)) \<Longrightarrow>
   distinct (dict_keys (lastModifiedDict self'))"
  by (auto simp: isRemoteModifiedAndUpdateMemory_def Let_def distinct_setitem
      split: sum.splits if_splits)

section \<open>Checking a URL against the memory\<close>

lemma recorded_after_check:
  assumes "getRemoteLastModified w url = Inr t"
    and "isRemoteModifiedAndUpdateMemory self url w = (res, self', w')"
  shows "map_of (lastModifiedDict self') url = Some t"
  using assms
  by (auto simp: isRemoteModifiedAndUpdateMemory_def Let_def map_of_setitem split: if_splits)

lemma check_world:
  assumes "isRemoteModifiedAndUpdateMemory self url w = (res, self', w')"
  shows "files w' = files w \<and> remote w' = remote w"
  using assms
  by (auto simp: isRemoteModifiedAndUpdateMemory_def Let_def print_def
      split: sum.splits if_splits)

lemma example_fetch:
  "getRemoteLastModified example_world assets_url = Inr ''Tue, 01 Jan 2019 00:00:00 GMT''"
  by (simp add: getRemoteLastModified_def example_world_def strip_def isspace_def)

lemma example_urls: "uabe_url \<noteq> assets_url"
  by (simp add: uabe_url_def assets_url_def)

text \<open>
  C1. Let the fetch of the remote date for \<open>url\<close> return \<open>t\<close>. If the memory holds \<open>t\<close> for
  \<open>url\<close>, \<open>isRemoteModifiedAndUpdateMemory\<close> returns \<^verbatim>\<open>False\<close> and leaves the manager as
  it is. In every other case, no entry or another value, it returns \<^verbatim>\<open>True\<close> and the
  memory then holds \<open>t\<close> for \<open>url\<close>. So the method returns \<^verbatim>\<open>False\<close> with the entry of
  \<open>url\<close> unchanged exactly when the recorded value equals the fetched one.
\<close>

theorem check_and_record:
  assumes fetch: "getRemoteLastModified w url = Inr t"
    and call: "isRemoteModifiedAndUpdateMemory self url w = (res, self', w')"
  shows "(map_of (lastModifiedDict self) url = Some t \<longrightarrow> res = Inr False \<and> self' = self)
       \<and> (map_of (lastModifiedDict self) url \<noteq> Some t \<longrightarrow>
            res = Inr True \<and> map_of (lastModifiedDict self') url = Some t)
       \<and> ((res = Inr False
             \<and> map_of (lastModifiedDict self') url = map_of (lastModifiedDict self) url)
           \<longleftrightarrow> map_of (lastModifiedDict self) url = Some t)"
  using call
  by (auto simp: isRemoteModifiedAndUpdateMemory_def fetch Let_def map_of_setitem
      split: if_splits)

theorem check_and_record_witness:
  "getRemoteLastModified example_world assets_url = Inr ''Tue, 01 Jan 2019 00:00:00 GMT''
   \<and> fst (isRemoteModifiedAndUpdateMemory stale_manager assets_url example_world) = Inr True
   \<and> map_of (lastModifiedDict
        (fst (snd (isRemoteModifiedAndUpdateMemory stale_manager assets_url example_world))))
        assets_url = Some ''Tue, 01 Jan 2019 00:00:00 GMT''"
proof -
  obtain res self' w'
    where call: "isRemoteModifiedAndUpdateMemory stale_manager assets_url example_world
                   = (res, self', w')"
    by (rule prod_cases3)
  have differ: "map_of (lastModifiedDict stale_manager) assets_url
                  \<noteq> Some ''Tue, 01 Jan 2019 00:00:00 GMT''"
    by (simp add: stale_manager_def)
  from check_and_record [OF example_fetch call] differ
  have "res = Inr True
        \<and> map_of (lastModifiedDict self') assets_url = Some ''Tue, 01 Jan 2019 00:00:00 GMT''"
    by blast
  with example_fetch call show ?thesis
    by simp
qed

text \<open>
  C3. If the request for \<open>url\<close> cannot be completed, or its response has no
  \<^verbatim>\<open>Last-Modified\<close> header, the fetch raises, \<open>isRemoteModifiedAndUpdateMemory\<close> raises
  the same exception, and the manager, with every entry of its memory, and the world are
  what they were before the call.
\<close>

theorem fetch_failure_leaves_memory:
  assumes "remote w url = RequestFailed \<or> remote w url = Response None"
  shows "\<exists>e. getRemoteLastModified w url = Inl e \<and> e \<in> {URLError, AttributeError}
           \<and> isRemoteModifiedAndUpdateMemory self url w = (Inl e, self, w)"
  using assms
  by (auto simp: isRemoteModifiedAndUpdateMemory_def getRemoteLastModified_def)

theorem fetch_failure_leaves_memory_witness:
  "remote example_world uabe_url = Response None
   \<and> isRemoteModifiedAndUpdateMemory stale_manager uabe_url example_world
       = (Inl AttributeError, stale_manager, example_world)"
proof -
  have absent: "remote example_world uabe_url = Response None"
    by (simp add: example_world_def example_urls)
  then have h: "remote example_world uabe_url = RequestFailed
                  \<or> remote example_world uabe_url = Response None"
    by simp
  from fetch_failure_leaves_memory [OF h, of stale_manager]
  obtain e where "getRemoteLastModified example_world uabe_url = Inl e"
    and "isRemoteModifiedAndUpdateMemory stale_manager uabe_url example_world
           = (Inl e, stale_manager, example_world)"
    by blast
  moreover have "getRemoteLastModified example_world uabe_url = Inl AttributeError"
    by (simp add: getRemoteLastModified_def absent)
  ultimately show ?thesis
    using absent by simp
qed

text \<open>
  C5. After a call of \<open>isRemoteModifiedAndUpdateMemory\<close> for \<open>url\<close> whose fetch returned
  \<open>t\<close>, whatever that call returned and whatever the memory held before it, a second call
  for \<open>url\<close> on the manager it left, in any world where the fetch returns \<open>t\<close> again,
  returns \<^verbatim>\<open>False\<close>. Nothing is saved in between: the second call starts from the
  manager of the first.
\<close>

theorem second_check_false:
  assumes fetch1: "getRemoteLastModified w url = Inr t"
    and call1: "isRemoteModifiedAndUpdateMemory self url w = (res1, self1, w1)"
    and fetch2: "getRemoteLastModified w2 url = Inr t"
  shows "fst (isRemoteModifiedAndUpdateMemory self1 url w2) = Inr False"
proof -
  from fetch1 call1 have "map_of (lastModifiedDict self1) url = Some t"
    by (rule recorded_after_check)
  then show ?thesis
    by (simp add: isRemoteModifiedAndUpdateMemory_def fetch2)
qed

theorem second_check_false_witness:
  "fst (isRemoteModifiedAndUpdateMemory fresh_manager assets_url example_world) = Inr True
   \<and> fst (isRemoteModifiedAndUpdateMemory
            (fst (snd (isRemoteModifiedAndUpdateMemory fresh_manager assets_url example_world)))
            assets_url
            (snd (snd (isRemoteModifiedAndUpdateMemory fresh_manager assets_url example_world))))
       = Inr False"
proof -
  obtain res1 self1 w1
    where call1: "isRemoteModifiedAndUpdateMemory fresh_manager assets_url example_world
                    = (res1, self1, w1)"
    by (rule prod_cases3)
  from check_world [OF call1] have "remote w1 = remote example_world"
    by simp
  then have "getRemoteLastModified w1 assets_url
               = getRemoteLastModified example_world assets_url"
    by (simp add: getRemoteLastModified_def)
  with example_fetch
  have fetch2: "getRemoteLastModified w1 assets_url = Inr ''Tue, 01 Jan 2019 00:00:00 GMT''"
    by simp
  have first: "res1 = Inr True"
    using call1 by (simp add: isRemoteModifiedAndUpdateMemory_def example_fetch fresh_manager_def)
  from second_check_false [OF example_fetch call1 fetch2] first call1 show ?thesis
    by simp
qed

text \<open>
  C10. Whatever \<open>isRemoteModifiedAndUpdateMemory\<close> does for \<open>url\<close>, return or raise, the
  memory holds for every other URL what it held before, and no file of the world has
  changed: the method writes nothing to the cache file, which only \<open>save\<close> writes.
\<close>

theorem check_frame:
  assumes call: "isRemoteModifiedAndUpdateMemory self url w = (res, self', w')"
  shows "(\<forall>u. u \<noteq> url \<longrightarrow>
            map_of (lastModifiedDict self') u = map_of (lastModifiedDict self) u)
       \<and> files w' = files w"
  using call
  by (auto simp: isRemoteModifiedAndUpdateMemory_def Let_def map_of_setitem print_def
      split: sum.splits if_splits)

theorem check_frame_witness:
  "fst (isRemoteModifiedAndUpdateMemory stale_manager assets_url example_world) = Inr True
   \<and> map_of (lastModifiedDict
        (fst (snd (isRemoteModifiedAndUpdateMemory stale_manager assets_url example_world))))
        uabe_url = Some ''Sun, 01 Jan 2017 00:00:00 GMT''
   \<and> files (snd (snd (isRemoteModifiedAndUpdateMemory stale_manager assets_url example_world)))
       = files example_world"
proof -
  obtain res self' w'
    where call: "isRemoteModifiedAndUpdateMemory stale_manager assets_url example_world
                   = (res, self', w')"
    by (rule prod_cases3)
  from check_frame [OF call]
  have others: "\<forall>u. u \<noteq> assets_url \<longrightarrow>
                  map_of (lastModifiedDict self') u = map_of (lastModifiedDict stale_manager) u"
    and same_files: "files w' = files example_world"
    by simp_all
  from others example_urls
  have "map_of (lastModifiedDict self') uabe_url = map_of (lastModifiedDict stale_manager) uabe_url"
    by blast
  also have "\<dots> = Some ''Sun, 01 Jan 2017 00:00:00 GMT''"
    using example_urls by (simp add: stale_manager_def)
  finally have entry: "map_of (lastModifiedDict self') uabe_url
                         = Some ''Sun, 01 Jan 2017 00:00:00 GMT''" .
  have "res = Inr True"
    using call
    by (simp add: isRemoteModifiedAndUpdateMemory_def example_fetch stale_manager_def)
  with entry same_files call show ?thesis
    by simp
qed

section \<open>Saving and loading the memory\<close>

text \<open>
  C4. For every manager, \<open>save\<close> in a world where the cache file can be opened for
  writing succeeds, and \<open>LastModifiedManager_init\<close> in the world that results returns a
  manager with the same dict: the same keys with the same values, in the same order. The
  keys of a \<^verbatim>\<open>dict\<close> are distinct.
\<close>

theorem save_load_roundtrip:
  assumes "distinct (dict_keys (lastModifiedDict self))"
    and "files w savePath \<noteq> Unopenable"
  shows "\<exists>w'. save self w = (Inr (), w') \<and> LastModifiedManager_init w' = Inr self"
  using assms
  by (cases "files w savePath")
    (simp_all add: save_def LastModifiedManager_init_def json_load_json_dump)

theorem save_load_roundtrip_witness:
  "fst (save stale_manager example_world) = Inr ()
   \<and> LastModifiedManager_init (snd (save stale_manager example_world)) = Inr stale_manager"
proof -
  have d: "distinct (dict_keys (lastModifiedDict stale_manager))"
    using example_urls by (simp add: stale_manager_def dict_keys_def)
  have f: "files example_world savePath \<noteq> Unopenable"
    by (simp add: example_world_def)
  from save_load_roundtrip [OF d f]
  obtain w' where "save stale_manager example_world = (Inr (), w')"
    and "LastModifiedManager_init w' = Inr stale_manager"
    by blast
  then show ?thesis
    by simp
qed

text \<open>
  C9. In a world with no file at the path of the cache, \<open>LastModifiedManager_init\<close>
  raises nothing and returns a manager whose dict is empty.
\<close>

theorem load_without_store:
  assumes "files w savePath = Absent"
  shows "LastModifiedManager_init w = Inr \<lparr>lastModifiedDict = []\<rparr>"
  using assms by (simp add: LastModifiedManager_init_def)

theorem load_without_store_witness:
  "LastModifiedManager_init example_world = Inr \<lparr>lastModifiedDict = []\<rparr>"
proof -
  have h: "files example_world savePath = Absent"
    by (simp add: example_world_def)
  from load_without_store [OF h] show ?thesis .
qed

end
